theory Spec2Isabelle
  imports
    Main
    "HOL-Library.Word"
    "HOL-Library.Char_ord"
    "HOL-Library.List_Lexorder"
begin

unbundle bit_operations_syntax

section \<open>JavaScript values, strings and exceptions\<close>

text \<open>
  Strings are byte lists: a JavaScript string is held as its UTF-8 encoding, so every
  ASCII character is one \<open>char\<close>. The program's own texts are ASCII except for the
  pictographs of the guidance block, which are written out as their four UTF-8 bytes.

  A value that is thrown is either an instance of \<open>Error\<close> (or of a subclass), of which
  the program reads the \<open>message\<close> only, or anything else. A computation that may throw
  returns an \<open>outcome\<close>; an \<open>async\<close> function that rejects is a \<open>Thrown\<close> outcome too.
\<close>

datatype thrown = Error_instance string | Non_error

datatype 'a outcome = Returned 'a | Thrown thrown

text \<open>JSON values. Numbers are integers; an object lists its properties in creation order.\<close>

datatype json =
    JNull
  | JBool bool
  | JNum int
  | JStr string
  | JArr "json list"
  | JObj "(string \<times> json) list"

type_synonym js_object = "(string \<times> json) list"

subsection \<open>Numbers to text\<close>

definition digit_char :: "nat \<Rightarrow> char" where
  "digit_char d = char_of (48 + d)"

fun show_nat :: "nat \<Rightarrow> string" where
  "show_nat n = (if n < 10 then [digit_char n] else show_nat (n div 10) @ [digit_char (n mod 10)])"

declare show_nat.simps [simp del]

definition show_int :: "int \<Rightarrow> string" where
  "show_int i = (if i < 0 then CHR ''-'' # show_nat (nat (- i)) else show_nat (nat i))"

subsection \<open>\<open>Array.prototype.join\<close>\<close>

fun join :: "string \<Rightarrow> string list \<Rightarrow> string" where
  "join sep [] = []"
| "join sep [x] = x"
| "join sep (x # y # ys) = x @ sep @ join sep (y # ys)"

subsection \<open>Property enumeration order\<close>

text \<open>
  The own property keys of an ordinary object are enumerated with the array indices
  first, in ascending numeric order, and then the other string keys in the order of
  their creation. An array index is the canonical decimal text of an integer from
  \<open>0\<close> to \<open>2^32 - 2\<close>. \<open>Object.keys\<close>, \<open>Object.entries\<close> and \<open>JSON.stringify\<close>
  all follow this order.
\<close>

definition is_digit :: "char \<Rightarrow> bool" where
  "is_digit c = (CHR ''0'' \<le> c \<and> c \<le> CHR ''9'')"

definition digits_value :: "string \<Rightarrow> nat" where
  "digits_value s = foldl (\<lambda>acc c. 10 * acc + (of_char c - 48)) 0 s"

definition is_array_index :: "string \<Rightarrow> bool" where
  "is_array_index k =
     (k \<noteq> [] \<and> list_all is_digit k \<and> (k = ''0'' \<or> hd k \<noteq> CHR ''0'')
      \<and> digits_value k \<le> 4294967294)"

definition own_entries :: "(string \<times> 'a) list \<Rightarrow> (string \<times> 'a) list" where
  "own_entries obj =
     sort_key (\<lambda>p. digits_value (fst p)) (filter (\<lambda>p. is_array_index (fst p)) obj)
     @ filter (\<lambda>p. \<not> is_array_index (fst p)) obj"

definition own_keys :: "(string \<times> 'a) list \<Rightarrow> string list" where
  "own_keys obj = map fst (own_entries obj)"

definition get_prop :: "js_object \<Rightarrow> string \<Rightarrow> json option" where
  "get_prop obj k = map_of obj k"

text \<open>
  The assignment \<open>acc[k] = v\<close> on an ordinary object: an existing own property keeps its
  place, a new one is created last. The key \<open>__proto__\<close> reaches the accessor of
  \<open>Object.prototype\<close> instead, which creates no own property.
\<close>

fun update_prop :: "js_object \<Rightarrow> string \<Rightarrow> json \<Rightarrow> js_object" where
  "update_prop [] k v = [(k, v)]"
| "update_prop ((k', v') # rest) k v =
     (if k' = k then (k, v) # rest else (k', v') # update_prop rest k v)"

definition assign_prop :: "js_object \<Rightarrow> string \<Rightarrow> json \<Rightarrow> js_object" where
  "assign_prop obj k v = (if k = ''__proto__'' then obj else update_prop obj k v)"

subsection \<open>Truthiness, \<open>String(v)\<close> and \<open>JSON.stringify\<close>\<close>

fun truthy :: "json \<Rightarrow> bool" where
  "truthy JNull = False"
| "truthy (JBool b) = b"
| "truthy (JNum n) = (n \<noteq> 0)"
| "truthy (JStr s) = (s \<noteq> [])"
| "truthy (JArr _) = True"
| "truthy (JObj _) = True"

text \<open>
  \<open>String(v)\<close>, which a template literal applies to each interpolated value. An array
  joins its elements with commas, \<open>null\<close> elements as the empty text.
\<close>

fun js_String :: "json \<Rightarrow> string" where
  "js_String JNull = ''null''"
| "js_String (JBool b) = (if b then ''true'' else ''false'')"
| "js_String (JNum n) = show_int n"
| "js_String (JStr s) = s"
| "js_String (JArr xs) = join '','' (map (\<lambda>x. if x = JNull then [] else js_String x) xs)"
| "js_String (JObj _) = ''[object Object]''"

definition hex_char :: "nat \<Rightarrow> char" where
  "hex_char d = (if d < 10 then char_of (48 + d) else char_of (87 + d))"

definition quote_char :: "char \<Rightarrow> string" where
  "quote_char c =
     (if c = CHR 0x22 then [CHR 0x5C, CHR 0x22]
      else if c = CHR 0x5C then [CHR 0x5C, CHR 0x5C]
      else if c = CHR 0x08 then [CHR 0x5C, CHR ''b'']
      else if c = CHR 0x09 then [CHR 0x5C, CHR ''t'']
      else if c = CHR 0x0A then [CHR 0x5C, CHR ''n'']
      else if c = CHR 0x0C then [CHR 0x5C, CHR ''f'']
      else if c = CHR 0x0D then [CHR 0x5C, CHR ''r'']
      else if (of_char c :: nat) < 32
        then [CHR 0x5C, CHR ''u'', CHR ''0'', CHR ''0'',
              hex_char (of_char c div 16), hex_char (of_char c mod 16)]
      else [c])"

definition quote_string :: "string \<Rightarrow> string" where
  "quote_string s = CHR 0x22 # concat (map quote_char s) @ [CHR 0x22]"

fun JSON_stringify :: "json \<Rightarrow> string" where
  "JSON_stringify JNull = ''null''"
| "JSON_stringify (JBool b) = (if b then ''true'' else ''false'')"
| "JSON_stringify (JNum n) = show_int n"
| "JSON_stringify (JStr s) = quote_string s"
| "JSON_stringify (JArr xs) = ''['' @ join '','' (map JSON_stringify xs) @ '']''"
| "JSON_stringify (JObj kvs) =
     ''{'' @ join '',''
        (map (\<lambda>(k, t). quote_string k @ '':'' @ t)
             (own_entries (map (\<lambda>(k, v). (k, JSON_stringify v)) kvs)))
     @ ''}''"

section \<open>The backend over HTTP\<close>

text \<open>
  \<open>fetch\<close> is the environment: a function from the request to what comes back. The
  promise rejects (no connection), or a response arrives. \<open>res.json()\<close> rejects when
  the body is not JSON. The response carries one field per reading of its body:
  \<open>res.text()\<close>, \<open>res.json()\<close> at type \<open>any\<close>, and for the script catalog
  \<open>res.json()\<close> at the type \<open>Script\<close> that the success path asserts for it.
\<close>

record request =
  url :: string
  http_method :: string
  headers :: "(string \<times> string) list"
  body :: "string option"

datatype 'r fetched = Rejects thrown | Responds 'r

record response =
  status :: nat
  body_text :: string
  json_any :: "thrown + json"

definition ok :: "nat \<Rightarrow> bool" where
  "ok s = (200 \<le> s \<and> s \<le> 299)"

text \<open>\<open>await res.json().catch(() => ({}))\<close>\<close>

definition json_or_empty :: "thrown + json \<Rightarrow> json" where
  "json_or_empty r = (case r of Inl _ \<Rightarrow> JObj [] | Inr j \<Rightarrow> j)"

section \<open>tools/fileTool.ts\<close>

datatype file_op = Create | Read | Write | Append | Insert | Replace | Save_as

record FileOperationArgs =
  operation :: file_op
  filename :: "string option"
  content :: "string option"
  line_number :: "int option"
  pattern :: "string option"
  replacement :: "string option"

fun file_op_name :: "file_op \<Rightarrow> string" where
  "file_op_name Create = ''create''"
| "file_op_name Read = ''read''"
| "file_op_name Write = ''write''"
| "file_op_name Append = ''append''"
| "file_op_name Insert = ''insert''"
| "file_op_name Replace = ''replace''"
| "file_op_name Save_as = ''save_as''"

text \<open>
  The argument object as JSON: a field that is \<open>undefined\<close> is left out, and the
  properties stand in the order of the type's declaration.
\<close>

definition opt_prop :: "string \<Rightarrow> json option \<Rightarrow> js_object" where
  "opt_prop k v = (case v of None \<Rightarrow> [] | Some j \<Rightarrow> [(k, j)])"

definition FileOperationArgs_json :: "FileOperationArgs \<Rightarrow> json" where
  "FileOperationArgs_json a =
     JObj ([(''operation'', JStr (file_op_name (operation a)))]
       @ opt_prop ''filename'' (map_option JStr (filename a))
       @ opt_prop ''content'' (map_option JStr (content a))
       @ opt_prop ''line_number'' (map_option JNum (line_number a))
       @ opt_prop ''pattern'' (map_option JStr (pattern a))
       @ opt_prop ''replacement'' (map_option JStr (replacement a)))"

definition file_operation_request :: "FileOperationArgs \<Rightarrow> request" where
  "file_operation_request args =
     \<lparr>url = ''http://localhost:8000/tools/file_operation'',
      http_method = ''POST'',
      headers = [(''Content-Type'', ''application/json'')],
      body = Some (JSON_stringify (FileOperationArgs_json args))\<rparr>"

definition fileOperationTool ::
  "(request \<Rightarrow> response fetched) \<Rightarrow> FileOperationArgs \<Rightarrow> json outcome" where
  "fileOperationTool fetch args =
     (case fetch (file_operation_request args) of
        Rejects e \<Rightarrow> Thrown e
      | Responds res \<Rightarrow>
          if \<not> ok (status res) then
            (let err = json_or_empty (json_any res)
             in Thrown (Error_instance
                  (''file_operation failed: '' @ show_nat (status res) @ '' ''
                     @ JSON_stringify err)))
          else (case json_any res of Inl e \<Rightarrow> Thrown e | Inr j \<Rightarrow> Returned j))"

text \<open>
  The \<open>file_operation\<close> entry of the agent's tools in server.ts:
  \<open>async (args) => { return await fileOperationTool(args as any); }\<close>
\<close>

definition file_operation ::
  "(request \<Rightarrow> response fetched) \<Rightarrow> FileOperationArgs \<Rightarrow> json outcome" where
  "file_operation fetch args = fileOperationTool fetch args"

section \<open>tools/scriptTool.ts\<close>

record ScriptLoadArgs =
  script_name :: string

record Stage =
  stage_name :: string
  prompt :: string
  questions :: "string list option"
  actions :: "string list option"

record Script =
  name :: string
  description :: string
  stages :: "Stage list"
  output_format :: "string option"
  interactive_elements :: "string list option"

record script_response = response +
  json_script :: "thrown + Script"

definition NL :: string where
  "NL = [CHR 0x0A]"

definition apostrophe :: string where
  "apostrophe = [CHR 0x27]"

text \<open>The pictographs U+1F3AF, U+1F4CB, U+1F4C4, U+1F3AE and U+1F4A1 in UTF-8.\<close>

definition direct_hit :: string where
  "direct_hit = [CHR 0xF0, CHR 0x9F, CHR 0x8E, CHR 0xAF]"

definition clipboard :: string where
  "clipboard = [CHR 0xF0, CHR 0x9F, CHR 0x93, CHR 0x8B]"

definition page_facing_up :: string where
  "page_facing_up = [CHR 0xF0, CHR 0x9F, CHR 0x93, CHR 0x84]"

definition video_game :: string where
  "video_game = [CHR 0xF0, CHR 0x9F, CHR 0x8E, CHR 0xAE]"

definition light_bulb :: string where
  "light_bulb = [CHR 0xF0, CHR 0x9F, CHR 0x92, CHR 0xA1]"

text \<open>
  \<open>String.prototype.toUpperCase\<close> maps every code point of the text by the Unicode
  case tables, one code point at a time. On ASCII the tables are fixed: the letters
  \<open>a\<close> to \<open>z\<close> become \<open>A\<close> to \<open>Z\<close> and nothing else changes. The table for the code
  points beyond ASCII is a parameter, \<open>upper_table\<close>: it takes the UTF-8 bytes of one
  such code point to the UTF-8 bytes of its upper case, which may be several code
  points. In UTF-8 a code point is one byte that is no continuation byte, followed by
  its continuation bytes (\<open>0x80\<close> to \<open>0xBF\<close>).
\<close>

definition is_continuation :: "char \<Rightarrow> bool" where
  "is_continuation c = (128 \<le> (of_char c :: nat) \<and> (of_char c :: nat) < 192)"

fun code_points :: "string \<Rightarrow> string list" where
  "code_points [] = []"
| "code_points (c # cs) =
     (case code_points cs of
        [] \<Rightarrow> [[c]]
      | p # ps \<Rightarrow>
          (case p of
             [] \<Rightarrow> [c] # ps
           | b # bs \<Rightarrow> if is_continuation b then (c # p) # ps else [c] # p # ps))"

definition upper_char :: "char \<Rightarrow> char" where
  "upper_char c = (if CHR ''a'' \<le> c \<and> c \<le> CHR ''z'' then char_of (of_char c - (32::nat)) else c)"

definition upper_code_point :: "(string \<Rightarrow> string) \<Rightarrow> string \<Rightarrow> string" where
  "upper_code_point upper_table p =
     (case p of
        [c] \<Rightarrow> if (of_char c :: nat) < 128 then [upper_char c] else upper_table p
      | _ \<Rightarrow> upper_table p)"

definition toUpperCase :: "(string \<Rightarrow> string) \<Rightarrow> string \<Rightarrow> string" where
  "toUpperCase upper_table s = concat (map (upper_code_point upper_table) (code_points s))"

text \<open>One round of the \<open>forEach\<close> over the stages: what it appends for stage \<open>index\<close>.\<close>

definition stage_text :: "(string \<Rightarrow> string) \<Rightarrow> nat \<Rightarrow> Stage \<Rightarrow> string" where
  "stage_text upper_table index stage =
     show_nat (index + 1) @ ''. **'' @ toUpperCase upper_table (stage_name stage) @ ''**: ''
       @ prompt stage @ NL
     @ (case questions stage of
          Some qs \<Rightarrow> if length qs > 0 then ''   - Key questions: '' @ join '', '' qs @ NL else []
        | None \<Rightarrow> [])
     @ (case actions stage of
          Some as \<Rightarrow> if length as > 0 then ''   - Available actions: '' @ join '', '' as @ NL else []
        | None \<Rightarrow> [])"

fun stages_text :: "(string \<Rightarrow> string) \<Rightarrow> nat \<Rightarrow> Stage list \<Rightarrow> string" where
  "stages_text upper_table index [] = []"
| "stages_text upper_table index (stage # rest) =
     stage_text upper_table index stage @ stages_text upper_table (index + 1) rest"

text \<open>
  \<open>generateScriptInstructions\<close> appends to \<open>instructions\<close> in four blocks: the heading,
  the stages, the notes on the output format and on the interactive elements, and the
  fixed guidelines.
\<close>

definition script_heading :: "Script \<Rightarrow> string" where
  "script_heading script =
     NL @ NL @ ''## '' @ direct_hit @ '' ACTIVE SCRIPT: '' @ name script @ NL @ NL
       @ description script @ NL @ NL
     @ ''### '' @ clipboard @ '' SCRIPT STRUCTURE:'' @ NL"

definition script_notes :: "Script \<Rightarrow> string" where
  "script_notes script =
     (case output_format script of
        Some fmt \<Rightarrow>
          if fmt \<noteq> [] then NL @ ''### '' @ page_facing_up @ '' OUTPUT FORMAT: '' @ fmt @ NL else []
      | None \<Rightarrow> [])
     @ (case interactive_elements script of
          Some els \<Rightarrow>
            if length els > 0
            then NL @ ''### '' @ video_game @ '' INTERACTIVE ELEMENTS: '' @ join '', '' els @ NL
            else []
        | None \<Rightarrow> [])"

definition execution_guidelines :: string where
  "execution_guidelines =
     NL @ ''### '' @ direct_hit @ '' SCRIPT EXECUTION GUIDELINES:'' @ NL
     @ ''- **YOU ARE NOW FOLLOWING THIS SCRIPT**: Use this as your primary guidance for the conversation'' @ NL
     @ ''- **STAGE-BY-STAGE APPROACH**: Guide the user through each stage naturally and conversationally'' @ NL
     @ ''- **DON'' @ apostrophe @ ''T RUSH**: Let the user explore and engage with each stage fully'' @ NL
     @ ''- **ADAPT WHEN NEEDED**: Use the script as a framework, but adapt to the user''
         @ apostrophe @ ''s needs and interests'' @ NL
     @ ''- **CAPTURE CONTENT**: Save important content in markdown files as you progress'' @ NL
     @ ''- **STAY ENCOURAGING**: Be supportive and positive throughout the process'' @ NL
     @ ''- **CURRENT STAGE**: Start with the first stage and progress naturally'' @ NL
     @ NL @ ''### '' @ light_bulb
     @ '' IMPORTANT: This script is now your primary behavior guide. Follow its structure and prompts to help the user achieve their goals.''
     @ NL"

definition generateScriptInstructions :: "(string \<Rightarrow> string) \<Rightarrow> Script \<Rightarrow> string" where
  "generateScriptInstructions upper_table script =
     script_heading script @ stages_text upper_table 0 (stages script) @ script_notes script
       @ execution_guidelines"

definition script_request :: "ScriptLoadArgs \<Rightarrow> request" where
  "script_request args =
     \<lparr>url = ''http://localhost:8000/scripts/'' @ script_name args,
      http_method = ''GET'',
      headers = [(''Content-Type'', ''application/json'')],
      body = None\<rparr>"

definition load_error_message :: "string \<Rightarrow> nat \<Rightarrow> json \<Rightarrow> string" where
  "load_error_message requested st err =
     ''Failed to load script '' @ apostrophe @ requested @ apostrophe @ '': ''
       @ show_nat st @ '' '' @ JSON_stringify err"

definition scriptLoadTool ::
  "(string \<Rightarrow> string) \<Rightarrow> (request \<Rightarrow> script_response fetched) \<Rightarrow> ScriptLoadArgs
     \<Rightarrow> (Script \<times> string) outcome" where
  "scriptLoadTool upper_table fetch args =
     (case fetch (script_request args) of
        Rejects e \<Rightarrow> Thrown e
      | Responds res \<Rightarrow>
          if \<not> ok (status res) then
            (let err = json_or_empty (json_any res)
             in Thrown (Error_instance (load_error_message (script_name args) (status res) err)))
          else
            (case json_script res of
               Inl e \<Rightarrow> Thrown e
             | Inr script \<Rightarrow>
                 (let instructions = generateScriptInstructions upper_table script
                  in Returned (script, instructions))))"

text \<open>
  The \<open>get_script_info\<close> entry of the agent's tools in server.ts. Its result object is
  \<open>{success: true, script, guidance}\<close> or \<open>{success: false, error}\<close>.
\<close>

datatype script_info = Script_info Script string | Failure string

definition get_script_info ::
  "(string \<Rightarrow> string) \<Rightarrow> (request \<Rightarrow> script_response fetched) \<Rightarrow> ScriptLoadArgs
     \<Rightarrow> script_info outcome" where
  "get_script_info upper_table fetch args =
     (case scriptLoadTool upper_table fetch args of
        Returned result \<Rightarrow> Returned (Script_info (fst result) (snd result))
      | Thrown error \<Rightarrow>
          Returned (Failure (case error of
                               Error_instance message \<Rightarrow> message
                             | Non_error \<Rightarrow> ''Unknown error'')))"

section \<open>SHA-1, HMAC and Base64 (\<open>node:crypto\<close>)\<close>

text \<open>
  \<open>crypto.createHmac('sha1', token).update(data).digest('base64')\<close> is HMAC (RFC 2104)
  over SHA-1 (FIPS 180-4) of the UTF-8 bytes, printed in Base64 with padding.
\<close>

type_synonym byte = "8 word"
type_synonym word32 = "32 word"

definition bytes_of_string :: "string \<Rightarrow> byte list" where
  "bytes_of_string s = map (\<lambda>c. of_nat (of_char c)) s"

definition be_bytes :: "nat \<Rightarrow> nat \<Rightarrow> byte list" where
  "be_bytes n v = map (\<lambda>i. of_nat (v div 2 ^ (8 * (n - 1 - i)))) [0..<n]"

definition word32_of_bytes :: "byte list \<Rightarrow> word32" where
  "word32_of_bytes bs = foldl (\<lambda>acc b. push_bit 8 acc OR ucast b) 0 bs"

definition bytes_of_word32 :: "word32 \<Rightarrow> byte list" where
  "bytes_of_word32 w =
     [ucast (drop_bit 24 w), ucast (drop_bit 16 w), ucast (drop_bit 8 w), ucast w]"

definition sha1_pad :: "byte list \<Rightarrow> byte list" where
  "sha1_pad m =
     m @ [0x80] @ replicate ((119 - length m mod 64) mod 64) 0 @ be_bytes 8 (8 * length m)"

fun chunks :: "nat \<Rightarrow> 'a list \<Rightarrow> 'a list list" where
  "chunks n xs = (if n = 0 \<or> xs = [] then [] else take n xs # chunks n (drop n xs))"

declare chunks.simps [simp del]

fun schedule :: "nat \<Rightarrow> word32 list \<Rightarrow> word32 list" where
  "schedule 0 ws = ws"
| "schedule (Suc n) ws =
     (let i = length ws
      in schedule n
           (ws @ [word_rotl 1
                    (ws ! (i - 3) XOR ws ! (i - 8) XOR ws ! (i - 14) XOR ws ! (i - 16))]))"

type_synonym sha1_state = "word32 \<times> word32 \<times> word32 \<times> word32 \<times> word32"

definition sha1_round :: "word32 list \<Rightarrow> sha1_state \<Rightarrow> nat \<Rightarrow> sha1_state" where
  "sha1_round ws s i =
     (case s of (a, b, c, d, e) \<Rightarrow>
        let f = (if i < 20 then (b AND c) OR (NOT b AND d)
                 else if i < 40 then b XOR c XOR d
                 else if i < 60 then (b AND c) OR (b AND d) OR (c AND d)
                 else b XOR c XOR d);
            k = (if i < 20 then 0x5A827999
                 else if i < 40 then 0x6ED9EBA1
                 else if i < 60 then 0x8F1BBCDC
                 else 0xCA62C1D6);
            temp = word_rotl 5 a + f + e + k + ws ! i
        in (temp, a, word_rotl 30 b, c, d))"

definition sha1_block :: "sha1_state \<Rightarrow> byte list \<Rightarrow> sha1_state" where
  "sha1_block h block =
     (let ws = schedule 64 (map word32_of_bytes (chunks 4 block))
      in case (h, foldl (sha1_round ws) h [0..<80]) of
           ((h0, h1, h2, h3, h4), (a, b, c, d, e)) \<Rightarrow>
             (h0 + a, h1 + b, h2 + c, h3 + d, h4 + e))"

definition sha1 :: "byte list \<Rightarrow> byte list" where
  "sha1 m =
     (case foldl sha1_block (0x67452301, 0xEFCDAB89, 0x98BADCFE, 0x10325476, 0xC3D2E1F0)
             (chunks 64 (sha1_pad m)) of
        (h0, h1, h2, h3, h4) \<Rightarrow> concat (map bytes_of_word32 [h0, h1, h2, h3, h4]))"

definition hmac_sha1 :: "byte list \<Rightarrow> byte list \<Rightarrow> byte list" where
  "hmac_sha1 key msg =
     (let k = (if length key > 64 then sha1 key else key);
          k' = k @ replicate (64 - length k) 0
      in sha1 (map (\<lambda>b. b XOR 0x5C) k' @ sha1 (map (\<lambda>b. b XOR 0x36) k' @ msg)))"

definition base64_alphabet :: string where
  "base64_alphabet = ''ABCDEFGHIJKLMNOPQRSTUVWXYZabcdefghijklmnopqrstuvwxyz0123456789+/''"

definition b64 :: "nat \<Rightarrow> char" where
  "b64 n = base64_alphabet ! (n mod 64)"

fun base64 :: "byte list \<Rightarrow> string" where
  "base64 [] = []"
| "base64 [a] =
     (let n = unat a * 65536
      in [b64 (n div 262144), b64 (n div 4096), CHR ''='', CHR ''=''])"
| "base64 [a, b] =
     (let n = unat a * 65536 + unat b * 256
      in [b64 (n div 262144), b64 (n div 4096), b64 (n div 64), CHR ''=''])"
| "base64 (a # b # c # rest) =
     (let n = unat a * 65536 + unat b * 256 + unat c
      in [b64 (n div 262144), b64 (n div 4096), b64 (n div 64), b64 n] @ base64 rest)"

definition hmac_sha1_base64 :: "string \<Rightarrow> string \<Rightarrow> string" where
  "hmac_sha1_base64 key data =
     base64 (hmac_sha1 (bytes_of_string key) (bytes_of_string data))"

text \<open>
  \<open>crypto.timingSafeEqual\<close> on two buffers: a \<open>RangeError\<close> when their byte lengths
  differ, their equality otherwise.
\<close>

definition timingSafeEqual :: "string \<Rightarrow> string \<Rightarrow> bool outcome" where
  "timingSafeEqual a b =
     (if length a \<noteq> length b
      then Thrown (Error_instance ''Input buffers must have the same byte length'')
      else Returned (a = b))"

section \<open>server.ts\<close>

text \<open>
  The module constants \<open>PUBLIC_URL\<close> and \<open>OPENAI_API_KEY\<close> are parameters of the
  handlers; \<open>OPENAI_API_KEY\<close> is the empty text when the variable is unset. The
  variable \<open>TWILIO_AUTH_TOKEN\<close> is read at each call and may be absent.

  Of a request the handlers read the header \<open>X-Twilio-Signature\<close> and the parsed body.
  What a handler sends is a \<open>reply\<close>: the status, the media type it sets and the
  text of the body (\<open>res.json\<close> sends \<open>application/json\<close>; \<open>res.send\<close> of a text
  with no type set sends \<open>text/html\<close>).
\<close>

record http_request =
  x_twilio_signature :: "string option"
  parsed_body :: "js_object option"

record reply =
  code :: nat
  media_type :: string
  payload :: string

definition json_reply :: "nat \<Rightarrow> json \<Rightarrow> reply" where
  "json_reply c j = \<lparr>code = c, media_type = ''application/json'', payload = JSON_stringify j\<rparr>"

definition dq :: string where
  "dq = [CHR 0x22]"

subsection \<open>\<open>validateTwilioRequest\<close>\<close>

text \<open>
  \<open>Object.keys(params).sort().reduce((acc, k) => (acc[k] = params[k], acc), {})\<close>.
  The default sort compares the keys as texts. Every \<open>k\<close> is an own key of \<open>params\<close>,
  so the read \<open>params[k]\<close> finds a value.
\<close>

definition sorted_params :: "js_object \<Rightarrow> js_object" where
  "sorted_params params =
     foldl (\<lambda>acc k. case get_prop params k of
                       Some v \<Rightarrow> assign_prop acc k v
                     | None \<Rightarrow> acc)
           [] (sort (own_keys params))"

definition signed_data :: "string \<Rightarrow> js_object \<Rightarrow> string" where
  "signed_data PUBLIC_URL params =
     (let url = PUBLIC_URL @ ''/twilio/voice'';
          sorted = sorted_params params
      in url @ concat (map (\<lambda>(k, v). k @ js_String v) (own_entries sorted)))"

text \<open>\<open>req.get('X-Twilio-Signature') || ''\<close> and \<open>req.body || {}\<close>\<close>

definition request_signature :: "http_request \<Rightarrow> string" where
  "request_signature req = (case x_twilio_signature req of None \<Rightarrow> [] | Some s \<Rightarrow> s)"

definition request_params :: "http_request \<Rightarrow> js_object" where
  "request_params req = (case parsed_body req of None \<Rightarrow> [] | Some b \<Rightarrow> b)"

definition validateTwilioRequest ::
  "string \<Rightarrow> string option \<Rightarrow> http_request \<Rightarrow> bool outcome" where
  "validateTwilioRequest PUBLIC_URL TWILIO_AUTH_TOKEN req =
     (case TWILIO_AUTH_TOKEN of
        None \<Rightarrow> Returned True
      | Some token \<Rightarrow>
          if token = [] then Returned True
          else
            (let signature = request_signature req;
                 params = request_params req;
                 data = signed_data PUBLIC_URL params;
                 computed = hmac_sha1_base64 token data
             in timingSafeEqual signature computed))"

subsection \<open>\<open>POST /twilio/voice\<close>\<close>

text \<open>\<open>String.prototype.replace\<close> with a text pattern: the first occurrence only.\<close>

fun replace_first :: "string \<Rightarrow> string \<Rightarrow> string \<Rightarrow> string" where
  "replace_first pat rep [] = (if pat = [] then rep else [])"
| "replace_first pat rep (c # cs) =
     (if take (length pat) (c # cs) = pat then rep @ drop (length pat) (c # cs)
      else c # replace_first pat rep cs)"

definition wsUrl :: "string \<Rightarrow> string" where
  "wsUrl PUBLIC_URL = replace_first ''http'' ''ws'' PUBLIC_URL @ ''/twilio/stream''"

definition twiml :: "string \<Rightarrow> string" where
  "twiml stream_url =
     ''<?xml version='' @ dq @ ''1.0'' @ dq @ '' encoding='' @ dq @ ''UTF-8'' @ dq @ ''?>'' @ NL
     @ ''    <Response>'' @ NL
     @ ''      <Say>Connecting you to the assistant.</Say>'' @ NL
     @ ''      <Start>'' @ NL
     @ ''        <Stream url='' @ dq @ stream_url @ dq @ '' />'' @ NL
     @ ''      </Start>'' @ NL
     @ ''      <Pause length='' @ dq @ ''60'' @ dq @ '' />'' @ NL
     @ ''    </Response>''"

definition post_twilio_voice :: "string \<Rightarrow> string option \<Rightarrow> http_request \<Rightarrow> reply" where
  "post_twilio_voice PUBLIC_URL TWILIO_AUTH_TOKEN req =
     \<lparr>code = 200, media_type = ''text/xml'', payload = twiml (wsUrl PUBLIC_URL)\<rparr>"

subsection \<open>\<open>POST /realtime/sdp\<close>\<close>

text \<open>\<open>String(req.body?.sdp || '')\<close>\<close>

definition sdp_offer_of :: "http_request \<Rightarrow> string" where
  "sdp_offer_of req =
     (case parsed_body req of
        None \<Rightarrow> []
      | Some b \<Rightarrow>
          (case get_prop b ''sdp'' of
             None \<Rightarrow> []
           | Some v \<Rightarrow> if truthy v then js_String v else []))"

definition realtime_request :: "string \<Rightarrow> string \<Rightarrow> request" where
  "realtime_request OPENAI_API_KEY sdpOffer =
     \<lparr>url = ''https://api.openai.com/v1/realtime?model=gpt-4o-realtime-preview-2024-12-17'',
      http_method = ''POST'',
      headers = [(''Authorization'', ''Bearer '' @ OPENAI_API_KEY),
                 (''Content-Type'', ''application/sdp''),
                 (''OpenAI-Beta'', ''realtime=v1'')],
      body = Some sdpOffer\<rparr>"

text \<open>
  The handler returns the reply it sends and the upstream requests it has made. A
  rejection of \<open>fetch\<close> or of \<open>rtResp.text()\<close> is the \<open>catch\<close> branch.
\<close>

definition post_realtime_sdp ::
  "string \<Rightarrow> (request \<Rightarrow> response fetched) \<Rightarrow> http_request \<Rightarrow> reply \<times> request list" where
  "post_realtime_sdp OPENAI_API_KEY fetch req =
     (let sdpOffer = sdp_offer_of req
      in if sdpOffer = [] then (json_reply 400 (JObj [(''error'', JStr ''Missing SDP'')]), [])
         else if OPENAI_API_KEY = []
           then (json_reply 500 (JObj [(''error'', JStr ''Server missing OPENAI_API_KEY'')]), [])
         else
           (let rq = realtime_request OPENAI_API_KEY sdpOffer
            in case fetch rq of
                 Rejects e \<Rightarrow> (json_reply 500 (JObj [(''error'', JStr ''SDP proxy error'')]), [rq])
               | Responds rtResp \<Rightarrow>
                   (let sdpAnswer = body_text rtResp
                    in if \<not> ok (status rtResp)
                       then (\<lparr>code = status rtResp, media_type = ''text/html'',
                              payload = sdpAnswer\<rparr>, [rq])
                       else (\<lparr>code = 200, media_type = ''application/sdp'',
                              payload = sdpAnswer\<rparr>, [rq]))))"

subsection \<open>The media-stream connections and \<open>activeAgents\<close>\<close>

text \<open>
  The state of the gateway: the map \<open>activeAgents\<close> and the websockets that are open.
  A websocket is named by a number. Of an agent the record keeps its name, the
  websocket of its transport layer and the names of its tools.
\<close>

record RealtimeAgent =
  agent_name :: string
  transportLayer :: nat
  tools :: "string list"

record gateway =
  activeAgents :: "string \<rightharpoonup> RealtimeAgent"
  open_sockets :: "nat set"

text \<open>
  \<open>wss.on('connection', async (ws) => ...)\<close>. The environment gives the value of
  \<open>crypto.randomUUID()\<close> and the outcome of \<open>agent.connect()\<close>.
\<close>

definition on_connection :: "gateway \<Rightarrow> nat \<Rightarrow> string \<Rightarrow> unit outcome \<Rightarrow> gateway" where
  "on_connection g ws uuid connected =
     (let agent = \<lparr>agent_name = ''Assistant'', transportLayer = ws,
                    tools = [''file_operation'', ''get_script_info'', ''list_available_scripts'']\<rparr>;
          g1 = g\<lparr>activeAgents := (activeAgents g)(uuid \<mapsto> agent),
                 open_sockets := insert ws (open_sockets g)\<rparr>
      in case connected of
           Returned _ \<Rightarrow> g1
         | Thrown err \<Rightarrow> g1\<lparr>open_sockets := open_sockets g1 - {ws}\<rparr>)"

text \<open>
  The events of the gateway. server.ts registers no handler that runs when a
  transport disconnects: the websocket is closed and nothing else changes.
\<close>

datatype event =
    Connection nat string "unit outcome"
  | Transport_disconnect nat

fun step :: "gateway \<Rightarrow> event \<Rightarrow> gateway" where
  "step g (Connection ws uuid connected) = on_connection g ws uuid connected"
| "step g (Transport_disconnect ws) = g\<lparr>open_sockets := open_sockets g - {ws}\<rparr>"

definition run :: "gateway \<Rightarrow> event list \<Rightarrow> gateway" where
  "run g evs = foldl step g evs"

section \<open>The notions of the specification\<close>

subsection \<open>The signed text of a webhook request\<close>

text \<open>
  The specification's signed text: the callback URL, then the form parameters sorted
  by key, each as its key immediately followed by its value. A request is to be
  accepted when its signature header is the Base64 HMAC-SHA1 of that text under the
  shared secret; with no shared secret there is no such HMAC.
\<close>

definition key_sorted_data :: "string \<Rightarrow> js_object \<Rightarrow> string" where
  "key_sorted_data PUBLIC_URL params =
     PUBLIC_URL @ ''/twilio/voice''
       @ concat (map (\<lambda>(k, v). k @ js_String v) (sort_key fst params))"


subsection \<open>The media-stream URL\<close>




subsection \<open>Well-formed XML\<close>




datatype xml_mode =
    Content
  | Lt
  | Open_name string
  | In_tag string "string list"
  | Attr_name string "string list" string
  | Attr_eq string "string list"
  | Attr_value string "string list"
  | After_attr string "string list"
  | Empty_close string
  | Close_name string
  | Bad











section \<open>Sample inputs\<close>

text \<open>
  Concrete requests, answers and states on which the properties below are evaluated.
  An answer of the backend lists every reading of its body; the readings that a call
  does not reach are filled in as a body that is not JSON.
\<close>

definition bare_request :: http_request where
  "bare_request = \<lparr>x_twilio_signature = None, parsed_body = None\<rparr>"

definition forged_request :: http_request where
  "forged_request =
     \<lparr>x_twilio_signature = Some ''forged'', parsed_body = Some [(''From'', JStr ''+15550100'')]\<rparr>"


definition offer_request :: http_request where
  "offer_request = \<lparr>x_twilio_signature = None, parsed_body = Some [(''sdp'', JStr ''v=0 offer'')]\<rparr>"


definition not_json :: "thrown + 'a" where
  "not_json = Inl (Error_instance ''Unexpected token'')"

definition text_answer :: "nat \<Rightarrow> string \<Rightarrow> request \<Rightarrow> response fetched" where
  "text_answer st t rq = Responds \<lparr>status = st, body_text = t, json_any = not_json\<rparr>"

definition json_answer :: "nat \<Rightarrow> json \<Rightarrow> request \<Rightarrow> response fetched" where
  "json_answer st j rq = Responds \<lparr>status = st, body_text = JSON_stringify j, json_any = Inr j\<rparr>"


definition script_missing :: script_response where
  "script_missing =
     \<lparr>status = 404, body_text = JSON_stringify (JObj [(''detail'', JStr ''Script not found'')]),
      json_any = Inr (JObj [(''detail'', JStr ''Script not found'')]), json_script = not_json\<rparr>"

definition sample_script :: Script where
  "sample_script =
     \<lparr>name = ''blog_writer'', description = ''Write a post'',
      stages = [\<lparr>stage_name = ''intro'', prompt = ''Ask for the topic'',
                 questions = Some [''What is it about?'', ''Who reads it?''],
                 actions = None\<rparr>,
                \<lparr>stage_name = ''draft'', prompt = ''Write the first draft'',
                 questions = Some [], actions = Some [''outline'', ''expand'']\<rparr>,
                \<lparr>stage_name = ''review'', prompt = ''Read it back'',
                 questions = None, actions = Some []\<rparr>],
      output_format = Some ''markdown'',
      interactive_elements = Some [''polls'', ''quizzes'']\<rparr>"

text \<open>The same script after a change at the backend.\<close>

definition revised_script :: Script where
  "revised_script =
     \<lparr>name = ''blog_writer'', description = ''Write a short post'',
      stages = [\<lparr>stage_name = ''closing'', prompt = ''Sum it up'',
                 questions = None, actions = Some [''publish'']\<rparr>],
      output_format = None, interactive_elements = Some []\<rparr>"

definition script_found :: "Script \<Rightarrow> request \<Rightarrow> script_response fetched" where
  "script_found script rq =
     Responds \<lparr>status = 200, body_text = [], json_any = not_json, json_script = Inr script\<rparr>"

text \<open>A case table that is never consulted on ASCII texts.\<close>

definition no_table :: "string \<Rightarrow> string" where
  "no_table p = p"

definition read_missing :: FileOperationArgs where
  "read_missing =
     \<lparr>operation = Read, filename = Some ''missing.md'', content = None,
      line_number = None, pattern = None, replacement = None\<rparr>"

definition idle_gateway :: gateway where
  "idle_gateway = \<lparr>activeAgents = Map.empty, open_sockets = {}\<rparr>"

definition connect_failed :: "unit outcome" where
  "connect_failed = Thrown (Error_instance ''connection refused'')"

section \<open>Properties\<close>

subsection \<open>Auxiliary facts\<close>

lemma show_nat_404: "show_nat 404 = ''404''"
  by code_simp

lemma stringify_detail:
  "JSON_stringify (JObj [(''detail'', JStr m)])
     = ''{'' @ dq @ ''detail'' @ dq @ '':'' @ quote_string m @ ''}''"
  by (simp add: own_entries_def is_array_index_def is_digit_def quote_string_def
      quote_char_def dq_def)




















lemma registry_step: "dom (activeAgents g) \<subseteq> dom (activeAgents (step g e))"
  by (cases e) (auto simp: on_connection_def Let_def split: outcome.splits)

lemma registry_run: "dom (activeAgents g) \<subseteq> dom (activeAgents (run g evs))"
  unfolding run_def
proof (induction evs arbitrary: g)
  case Nil
  show ?case by simp
next
  case (Cons e evs)
  have "dom (activeAgents g) \<subseteq> dom (activeAgents (step g e))" by (rule registry_step)
  also have "\<dots> \<subseteq> dom (activeAgents (foldl step (step g e) evs))" by (rule Cons.IH)
  finally show ?case by simp
qed

lemma stages_text_concat:
  "stages_text upper_table k sts
     = concat (map (\<lambda>i. stage_text upper_table (k + i) (sts ! i)) [0..<length sts])"
proof (induction sts arbitrary: k)
  case Nil
  show ?case by simp
next
  case (Cons st sts)
  have "[0..<length (st # sts)] = 0 # map Suc [0..<length sts]"
    by (simp add: upt_conv_Cons map_Suc_upt del: upt_Suc)
  then show ?case
    by (simp add: Cons.IH comp_def del: upt_Suc)
qed

lemma stage_text_explicit:
  "stage_text upper_table i st
     = show_nat (i + 1) @ ''. **'' @ toUpperCase upper_table (stage_name st) @ ''**: ''
         @ prompt st @ NL
       @ (case questions st of
            Some (q # qs) \<Rightarrow> ''   - Key questions: '' @ join '', '' (q # qs) @ NL
          | _ \<Rightarrow> [])
       @ (case actions st of
            Some (a # as) \<Rightarrow> ''   - Available actions: '' @ join '', '' (a # as) @ NL
          | _ \<Rightarrow> [])"
  by (simp add: stage_text_def split: option.splits list.splits)

lemma script_notes_explicit:
  "script_notes script
     = (case output_format script of
          Some (c # cs) \<Rightarrow> NL @ ''### '' @ page_facing_up @ '' OUTPUT FORMAT: '' @ c # cs @ NL
        | _ \<Rightarrow> [])
       @ (case interactive_elements script of
            Some (e # es) \<Rightarrow>
              NL @ ''### '' @ video_game @ '' INTERACTIVE ELEMENTS: '' @ join '', '' (e # es) @ NL
          | _ \<Rightarrow> [])"
  by (simp add: script_notes_def split: option.splits list.splits)

lemma show_nat_small:
  "show_nat 1 = ''1''" "show_nat 2 = ''2''" "show_nat 3 = ''3''"
  "show_nat (Suc 0) = ''1''" "show_nat (Suc (Suc 0)) = ''2''"
  "show_nat (Suc (Suc (Suc 0))) = ''3''"
  by code_simp+

lemma sample_names_upper:
  "toUpperCase no_table ''intro'' = ''INTRO''"
  "toUpperCase no_table ''draft'' = ''DRAFT''"
  "toUpperCase no_table ''review'' = ''REVIEW''"
  "toUpperCase no_table ''closing'' = ''CLOSING''"
  by code_simp+

text \<open>
  A name with a letter beyond ASCII: the two bytes of U+00E9 go to the table as one
  code point, the ASCII letters around it are mapped directly.
\<close>

lemma upper_char_cafs:
  "upper_char CHR ''c'' = CHR ''C''" "upper_char CHR ''a'' = CHR ''A''"
  "upper_char CHR ''f'' = CHR ''F''" "upper_char CHR ''s'' = CHR ''S''"
  by code_simp+

lemma toUpperCase_beyond_ascii:
  "toUpperCase upper_table (''caf'' @ [CHR 0xC3, CHR 0xA9] @ ''s'')
     = ''CAF'' @ upper_table [CHR 0xC3, CHR 0xA9] @ ''S''"
  by (simp add: toUpperCase_def upper_code_point_def is_continuation_def upper_char_cafs)


subsection \<open>The tools\<close>

text \<open>
  C1. The \<open>file_operation\<close> tool, asked to read a document that the backend does not
  have, should hand back a failure result. The backend answers such a request with
  status 404 and a JSON body; \<open>fileOperationTool\<close> throws on every status outside
  200..299, and the \<open>file_operation\<close> entry of the agent's tools awaits it outside any
  \<open>try\<close>, so the tool call ends in the thrown \<open>Error\<close> and returns no value. The
  entries \<open>get_script_info\<close> and \<open>list_available_scripts\<close> catch the same kind of
  error and return \<open>{success: false, error}\<close>.
\<close>

theorem file_operation_read_missing_throws:
  "file_operation (json_answer 404 (JObj [(''detail'', JStr ''File not found'')])) read_missing
   = Thrown (Error_instance
       (''file_operation failed: 404 {'' @ dq @ ''detail'' @ dq @ '':'' @ dq @ ''File not found''
          @ dq @ ''}''))"
  by (simp add: file_operation_def fileOperationTool_def json_answer_def ok_def
      json_or_empty_def show_nat_404 stringify_detail quote_string_def quote_char_def dq_def
      del: JSON_stringify.simps)

text \<open>
  C5. When the script catalog answers the lookup of the requested name with a status
  outside 200..299 (its not-found answer), \<open>get_script_info\<close> returns, and what it
  returns is \<open>{success: false, error}\<close> whose message quotes the requested name, then
  gives the status and the body of the answer.
\<close>

theorem get_script_info_missing_script:
  assumes "fetch (script_request args) = Responds res" and "\<not> ok (status res)"
  shows "get_script_info upper_table fetch args =
     Returned (Failure
       (''Failed to load script '' @ apostrophe @ script_name args @ apostrophe @ '': ''
          @ show_nat (status res) @ '' '' @ JSON_stringify (json_or_empty (json_any res))))"
  using assms by (simp add: get_script_info_def scriptLoadTool_def load_error_message_def)

theorem get_script_info_missing_script_witness:
  "get_script_info no_table (\<lambda>rq. Responds script_missing) \<lparr>script_name = ''no_such_script''\<rparr>
   = Returned (Failure
       (''Failed to load script '' @ apostrophe @ ''no_such_script'' @ apostrophe @ '': 404 {''
          @ dq @ ''detail'' @ dq @ '':'' @ dq @ ''Script not found'' @ dq @ ''}''))"
  using get_script_info_missing_script
    [of "\<lambda>rq. Responds script_missing" "\<lparr>script_name = ''no_such_script''\<rparr>" script_missing
        no_table]
  by (simp add: script_missing_def ok_def json_or_empty_def show_nat_404 stringify_detail
      quote_string_def quote_char_def dq_def del: JSON_stringify.simps)

text \<open>
  C7. A call of \<open>get_script_info\<close> that fetches a descriptor returns that descriptor
  and a guidance text that is made of the descriptor alone: the name and the
  description; for every stage, in order, its index counted from 1, its name in
  capitals, its prompt, and its questions and its actions when the list is present
  and not empty; the output-format note when the format is present and not empty; the
  interactive-elements note when that list is present and not empty; and the fixed
  guidelines. A second call, with any arguments and any state of the backend, that
  fetches an equal descriptor returns the same. scriptTool.ts declares no variable
  outside its functions, so a call has nothing of an earlier call to read.
\<close>

theorem get_script_info_guidance:
  assumes "fetch1 (script_request args1) = Responds res1" and "ok (status res1)"
    and "json_script res1 = Inr script"
    and "fetch2 (script_request args2) = Responds res2" and "ok (status res2)"
    and "json_script res2 = Inr script"
  shows "get_script_info upper_table fetch1 args1 =
      Returned (Script_info script
        (NL @ NL @ ''## '' @ direct_hit @ '' ACTIVE SCRIPT: '' @ name script @ NL @ NL
         @ description script @ NL @ NL
         @ ''### '' @ clipboard @ '' SCRIPT STRUCTURE:'' @ NL
         @ concat (map
             (\<lambda>i. show_nat (i + 1) @ ''. **''
                    @ toUpperCase upper_table (stage_name (stages script ! i)) @ ''**: ''
                    @ prompt (stages script ! i) @ NL
                  @ (case questions (stages script ! i) of
                       Some (q # qs) \<Rightarrow> ''   - Key questions: '' @ join '', '' (q # qs) @ NL
                     | _ \<Rightarrow> [])
                  @ (case actions (stages script ! i) of
                       Some (a # as) \<Rightarrow> ''   - Available actions: '' @ join '', '' (a # as) @ NL
                     | _ \<Rightarrow> []))
             [0..<length (stages script)])
         @ (case output_format script of
              Some (c # cs) \<Rightarrow> NL @ ''### '' @ page_facing_up @ '' OUTPUT FORMAT: '' @ c # cs @ NL
            | _ \<Rightarrow> [])
         @ (case interactive_elements script of
              Some (e # es) \<Rightarrow>
                NL @ ''### '' @ video_game @ '' INTERACTIVE ELEMENTS: ''
                  @ join '', '' (e # es) @ NL
            | _ \<Rightarrow> [])
         @ execution_guidelines))
    \<and> get_script_info upper_table fetch2 args2 = get_script_info upper_table fetch1 args1"
proof -
  have "generateScriptInstructions upper_table script
      = script_heading script
        @ concat (map (\<lambda>i. stage_text upper_table i (stages script ! i))
                    [0..<length (stages script)])
        @ script_notes script @ execution_guidelines"
    by (simp add: generateScriptInstructions_def stages_text_concat)
  then have "generateScriptInstructions upper_table script
      = NL @ NL @ ''## '' @ direct_hit @ '' ACTIVE SCRIPT: '' @ name script @ NL @ NL
         @ description script @ NL @ NL
         @ ''### '' @ clipboard @ '' SCRIPT STRUCTURE:'' @ NL
         @ concat (map
             (\<lambda>i. show_nat (i + 1) @ ''. **''
                    @ toUpperCase upper_table (stage_name (stages script ! i)) @ ''**: ''
                    @ prompt (stages script ! i) @ NL
                  @ (case questions (stages script ! i) of
                       Some (q # qs) \<Rightarrow> ''   - Key questions: '' @ join '', '' (q # qs) @ NL
                     | _ \<Rightarrow> [])
                  @ (case actions (stages script ! i) of
                       Some (a # as) \<Rightarrow> ''   - Available actions: '' @ join '', '' (a # as) @ NL
                     | _ \<Rightarrow> []))
             [0..<length (stages script)])
         @ (case output_format script of
              Some (c # cs) \<Rightarrow> NL @ ''### '' @ page_facing_up @ '' OUTPUT FORMAT: '' @ c # cs @ NL
            | _ \<Rightarrow> [])
         @ (case interactive_elements script of
              Some (e # es) \<Rightarrow>
                NL @ ''### '' @ video_game @ '' INTERACTIVE ELEMENTS: ''
                  @ join '', '' (e # es) @ NL
            | _ \<Rightarrow> [])
         @ execution_guidelines"
    by (simp only: stage_text_explicit script_notes_explicit script_heading_def append_assoc)
  with assms show ?thesis
    by (simp only: get_script_info_def scriptLoadTool_def Let_def fetched.case if_not_P
        not_not sum.case outcome.case fst_conv snd_conv simp_thms)
qed

theorem get_script_info_guidance_witness:
  "get_script_info no_table (script_found sample_script) \<lparr>script_name = ''blog_writer''\<rparr>
     = Returned (Script_info sample_script
         (NL @ NL @ ''## '' @ direct_hit @ '' ACTIVE SCRIPT: blog_writer'' @ NL @ NL
          @ ''Write a post'' @ NL @ NL
          @ ''### '' @ clipboard @ '' SCRIPT STRUCTURE:'' @ NL
          @ ''1. **INTRO**: Ask for the topic'' @ NL
          @ ''   - Key questions: What is it about?, Who reads it?'' @ NL
          @ ''2. **DRAFT**: Write the first draft'' @ NL
          @ ''   - Available actions: outline, expand'' @ NL
          @ ''3. **REVIEW**: Read it back'' @ NL
          @ NL @ ''### '' @ page_facing_up @ '' OUTPUT FORMAT: markdown'' @ NL
          @ NL @ ''### '' @ video_game @ '' INTERACTIVE ELEMENTS: polls, quizzes'' @ NL
          @ NL @ ''### '' @ direct_hit @ '' SCRIPT EXECUTION GUIDELINES:'' @ NL
          @ ''- **YOU ARE NOW FOLLOWING THIS SCRIPT**: Use this as your primary guidance for the conversation'' @ NL
          @ ''- **STAGE-BY-STAGE APPROACH**: Guide the user through each stage naturally and conversationally'' @ NL
          @ ''- **DON'' @ apostrophe @ ''T RUSH**: Let the user explore and engage with each stage fully'' @ NL
          @ ''- **ADAPT WHEN NEEDED**: Use the script as a framework, but adapt to the user''
              @ apostrophe @ ''s needs and interests'' @ NL
          @ ''- **CAPTURE CONTENT**: Save important content in markdown files as you progress'' @ NL
          @ ''- **STAY ENCOURAGING**: Be supportive and positive throughout the process'' @ NL
          @ ''- **CURRENT STAGE**: Start with the first stage and progress naturally'' @ NL
          @ NL @ ''### '' @ light_bulb
          @ '' IMPORTANT: This script is now your primary behavior guide. Follow its structure and prompts to help the user achieve their goals.''
          @ NL))
   \<and> get_script_info no_table (script_found sample_script) \<lparr>script_name = ''blog''\<rparr>
     = get_script_info no_table (script_found sample_script) \<lparr>script_name = ''blog_writer''\<rparr>
   \<and> get_script_info no_table (script_found revised_script) \<lparr>script_name = ''blog_writer''\<rparr>
     = Returned (Script_info revised_script
         (NL @ NL @ ''## '' @ direct_hit @ '' ACTIVE SCRIPT: blog_writer'' @ NL @ NL
          @ ''Write a short post'' @ NL @ NL
          @ ''### '' @ clipboard @ '' SCRIPT STRUCTURE:'' @ NL
          @ ''1. **CLOSING**: Sum it up'' @ NL
          @ ''   - Available actions: publish'' @ NL
          @ execution_guidelines))"
  using get_script_info_guidance
    [of "script_found sample_script" "\<lparr>script_name = ''blog_writer''\<rparr>"
        "\<lparr>status = 200, body_text = [], json_any = not_json, json_script = Inr sample_script\<rparr>"
        sample_script
        "script_found sample_script" "\<lparr>script_name = ''blog''\<rparr>"
        "\<lparr>status = 200, body_text = [], json_any = not_json, json_script = Inr sample_script\<rparr>"
        no_table]
    get_script_info_guidance
    [of "script_found revised_script" "\<lparr>script_name = ''blog_writer''\<rparr>"
        "\<lparr>status = 200, body_text = [], json_any = not_json, json_script = Inr revised_script\<rparr>"
        revised_script
        "script_found revised_script" "\<lparr>script_name = ''blog_writer''\<rparr>"
        "\<lparr>status = 200, body_text = [], json_any = not_json, json_script = Inr revised_script\<rparr>"
        no_table]
  by (simp add: script_found_def ok_def sample_script_def revised_script_def
      execution_guidelines_def show_nat_small sample_names_upper)

subsection \<open>The telephony webhook\<close>







text \<open>
  With array-index keys the text that \<open>validateTwilioRequest\<close> signs is not in key
  order: the object that receives the sorted keys enumerates \<open>9\<close> before \<open>10\<close>.
\<close>

lemma signed_data_array_index_keys:
  "signed_data ''https://mycompany.com'' [(''10'', JStr ''a''), (''9'', JStr ''b'')]
     = ''https://mycompany.com/twilio/voice9b10a''
   \<and> key_sorted_data ''https://mycompany.com'' [(''10'', JStr ''a''), (''9'', JStr ''b'')]
     = ''https://mycompany.com/twilio/voice10a9b''"
  by (simp add: signed_data_def sorted_params_def own_keys_def own_entries_def
      is_array_index_def is_digit_def digits_value_def get_prop_def assign_prop_def
      key_sorted_data_def)

text \<open>
  C9. The reply of \<open>POST /twilio/voice\<close> is the same for any two requests, whatever
  their signature headers and form parameters: the handler never reads the request
  and never calls \<open>validateTwilioRequest\<close>.
\<close>

theorem post_twilio_voice_ignores_request:
  "post_twilio_voice PUBLIC_URL TWILIO_AUTH_TOKEN req1
     = post_twilio_voice PUBLIC_URL TWILIO_AUTH_TOKEN req2"
  by (simp add: post_twilio_voice_def)

text \<open>
  C10. When \<open>TWILIO_AUTH_TOKEN\<close> is unset or empty, \<open>validateTwilioRequest\<close> returns
  \<open>true\<close> for every request.
\<close>

theorem validateTwilioRequest_skips_without_token:
  "TWILIO_AUTH_TOKEN = None \<or> TWILIO_AUTH_TOKEN = Some [] \<Longrightarrow>
     validateTwilioRequest PUBLIC_URL TWILIO_AUTH_TOKEN req = Returned True"
  by (auto simp: validateTwilioRequest_def)

theorem validateTwilioRequest_skips_without_token_witness:
  "validateTwilioRequest ''https://gateway.example'' None forged_request = Returned True
   \<and> validateTwilioRequest ''https://gateway.example'' (Some []) bare_request = Returned True"
  using validateTwilioRequest_skips_without_token [of None]
    validateTwilioRequest_skips_without_token [of "Some []"]
  by simp

subsection \<open>The SDP relay\<close>

text \<open>
  C2, as amended. For a request whose \<open>sdp\<close> field is a non-empty text, with the
  credential configured and the upstream answering, the relay makes one upstream
  request whose body is the offer, unchanged, and replies with the upstream's body,
  unchanged. The status of the reply is the upstream's when that is outside 200..299,
  and 200 for every upstream status from 200 to 299.
\<close>

theorem sdp_relay_forwards_and_returns:
  assumes "parsed_body req = Some b" and "get_prop b ''sdp'' = Some (JStr offer)"
    and "offer \<noteq> []" and "OPENAI_API_KEY \<noteq> []"
    and "fetch (realtime_request OPENAI_API_KEY offer) = Responds rtResp"
  shows "post_realtime_sdp OPENAI_API_KEY fetch req =
      (\<lparr>code = (if ok (status rtResp) then 200 else status rtResp),
        media_type = (if ok (status rtResp) then ''application/sdp'' else ''text/html''),
        payload = body_text rtResp\<rparr>,
       [realtime_request OPENAI_API_KEY offer])
    \<and> body (realtime_request OPENAI_API_KEY offer) = Some offer"
  using assms by (simp add: post_realtime_sdp_def sdp_offer_of_def realtime_request_def Let_def)

theorem sdp_relay_forwards_and_returns_witness:
  "post_realtime_sdp ''sk-test'' (text_answer 200 ''v=0 answer'') offer_request
   = (\<lparr>code = 200, media_type = ''application/sdp'', payload = ''v=0 answer''\<rparr>,
      [realtime_request ''sk-test'' ''v=0 offer''])"
  using sdp_relay_forwards_and_returns
    [of offer_request "[(''sdp'', JStr ''v=0 offer'')]" "''v=0 offer''" "''sk-test''"
        "text_answer 200 ''v=0 answer''"
        "\<lparr>status = 200, body_text = ''v=0 answer'', json_any = not_json\<rparr>"]
  by (simp add: offer_request_def text_answer_def get_prop_def ok_def)

text \<open>
  The claim as stated fails for an upstream that answers an offer with status 201: the
  reply has status 200.
\<close>

theorem sdp_relay_status_counterexample:
  "post_realtime_sdp ''sk-test'' (text_answer 201 ''v=0 answer'') offer_request
   = (\<lparr>code = 200, media_type = ''application/sdp'', payload = ''v=0 answer''\<rparr>,
      [realtime_request ''sk-test'' ''v=0 offer''])
   \<and> code (fst (post_realtime_sdp ''sk-test'' (text_answer 201 ''v=0 answer'') offer_request))
     \<noteq> 201"
  by (simp add: post_realtime_sdp_def sdp_offer_of_def offer_request_def text_answer_def
      get_prop_def ok_def)



subsection \<open>The registry of sessions\<close>

text \<open>
  C4. server.ts declares \<open>activeAgents\<close> as the map of the active sessions, so the
  entry of a session should leave the map when the session is closed. It does not: a
  connection whose \<open>agent.connect()\<close> fails has its websocket closed and its entry is
  still in the map, and so has a connection whose transport has disconnected. The
  handler only ever calls \<open>activeAgents.set\<close>.
\<close>

theorem activeAgents_keeps_closed_sessions:
  "''id-1'' \<in> dom (activeAgents (run idle_gateway [Connection 1 ''id-1'' connect_failed]))
   \<and> 1 \<notin> open_sockets (run idle_gateway [Connection 1 ''id-1'' connect_failed])
   \<and> ''id-2'' \<in> dom (activeAgents (run idle_gateway
        [Connection 2 ''id-2'' (Returned ()), Transport_disconnect 2]))
   \<and> 2 \<notin> open_sockets (run idle_gateway
        [Connection 2 ''id-2'' (Returned ()), Transport_disconnect 2])"
  by (simp add: run_def on_connection_def idle_gateway_def connect_failed_def)

text \<open>
  The same holds of every run of the gateway: no event removes an entry, whatever
  follows the connection.
\<close>

lemma activeAgents_never_shrinks:
  "dom (activeAgents g) \<subseteq> dom (activeAgents (run g evs))
   \<and> uuid \<in> dom (activeAgents (run (on_connection g ws uuid connected) evs))
   \<and> ws \<notin> open_sockets (on_connection g ws uuid (Thrown err))
   \<and> activeAgents (step g (Transport_disconnect ws)) = activeAgents g"
proof -
  have "uuid \<in> dom (activeAgents (on_connection g ws uuid connected))"
    by (simp add: on_connection_def Let_def split: outcome.splits)
  then have "uuid \<in> dom (activeAgents (run (on_connection g ws uuid connected) evs))"
    using registry_run by blast
  then show ?thesis
    by (simp add: registry_run) (simp add: on_connection_def)
qed

end
